theory Spec2Isabelle
  imports Complex_Main "HOL-Library.Sublist"
begin

section \<open>JavaScript values used by the handlers\<close>

text \<open>
  The handlers of \<^verbatim>\<open>server.js\<close> and \<^verbatim>\<open>routes/products.js\<close> receive strings
  (query parameters, multipart fields, JSON body fields) and turn some of them into numbers
  with \<^verbatim>\<open>parseInt\<close>, \<^verbatim>\<open>parseFloat\<close> or by arithmetic coercion. A number is modelled as
  an exact rational extended with \<^verbatim>\<open>NaN\<close> and the two infinities: the rounding of binary64
  and the sign of zero are not represented. Characters are bytes; the white space and the
  letters of the model are the ASCII ones.
\<close>

datatype jsnum = NaN | Fin rat | PosInf | NegInf

datatype jsval = Undefined | Str string | Num jsnum

definition truthy :: "string option \<Rightarrow> bool" where
  "truthy v = (case v of None \<Rightarrow> False | Some s \<Rightarrow> s \<noteq> [])"

definition js_neg :: "jsnum \<Rightarrow> jsnum" where
  "js_neg a = (case a of NaN \<Rightarrow> NaN | Fin x \<Rightarrow> Fin (- x) | PosInf \<Rightarrow> NegInf | NegInf \<Rightarrow> PosInf)"

fun js_add :: "jsnum \<Rightarrow> jsnum \<Rightarrow> jsnum" where
  "js_add NaN _ = NaN"
| "js_add _ NaN = NaN"
| "js_add (Fin x) (Fin y) = Fin (x + y)"
| "js_add PosInf NegInf = NaN"
| "js_add NegInf PosInf = NaN"
| "js_add PosInf _ = PosInf"
| "js_add NegInf _ = NegInf"
| "js_add (Fin x) b = b"

definition js_sub :: "jsnum \<Rightarrow> jsnum \<Rightarrow> jsnum" where
  "js_sub a b = js_add a (js_neg b)"

definition js_sign :: "jsnum \<Rightarrow> int" where
  "js_sign a = (case a of
       NaN \<Rightarrow> 0
     | Fin x \<Rightarrow> (if x < 0 then - 1 else if x = 0 then 0 else 1)
     | PosInf \<Rightarrow> 1
     | NegInf \<Rightarrow> - 1)"

definition js_inf :: "int \<Rightarrow> jsnum" where
  "js_inf s = (if s < 0 then NegInf else PosInf)"

fun js_mul :: "jsnum \<Rightarrow> jsnum \<Rightarrow> jsnum" where
  "js_mul NaN _ = NaN"
| "js_mul _ NaN = NaN"
| "js_mul (Fin x) (Fin y) = Fin (x * y)"
| "js_mul a b = (if js_sign a = 0 \<or> js_sign b = 0 then NaN else js_inf (js_sign a * js_sign b))"

fun js_div :: "jsnum \<Rightarrow> jsnum \<Rightarrow> jsnum" where
  "js_div NaN _ = NaN"
| "js_div _ NaN = NaN"
| "js_div (Fin x) (Fin y) =
     (if y \<noteq> 0 then Fin (x / y) else if x = 0 then NaN else js_inf (js_sign (Fin x)))"
| "js_div (Fin x) _ = Fin 0"
| "js_div a (Fin y) = js_inf (js_sign a * (if y < 0 then - 1 else 1))"
| "js_div _ _ = NaN"

definition Math_ceil :: "jsnum \<Rightarrow> jsnum" where
  "Math_ceil a = (case a of Fin x \<Rightarrow> Fin (of_int \<lceil>x\<rceil>) | _ \<Rightarrow> a)"

subsection \<open>Scanning numbers in strings\<close>

definition is_ws :: "char \<Rightarrow> bool" where
  "is_ws c = ((of_char c :: nat) \<in> {9, 10, 11, 12, 13, 32})"

definition digit_val :: "char \<Rightarrow> nat option" where
  "digit_val c = (let n = (of_char c :: nat) in
     if 48 \<le> n \<and> n \<le> 57 then Some (n - 48)
     else if 97 \<le> n \<and> n \<le> 122 then Some (n - 87)
     else if 65 \<le> n \<and> n \<le> 90 then Some (n - 55)
     else None)"

definition is_digit_radix :: "nat \<Rightarrow> char \<Rightarrow> bool" where
  "is_digit_radix r c = (case digit_val c of Some d \<Rightarrow> d < r | None \<Rightarrow> False)"

definition digits_value :: "nat \<Rightarrow> string \<Rightarrow> nat" where
  "digits_value r cs =
     foldl (\<lambda>acc c. acc * r + (case digit_val c of Some d \<Rightarrow> d | None \<Rightarrow> 0)) 0 cs"

fun strip_sign :: "string \<Rightarrow> bool \<times> string" where
  "strip_sign (c # cs) =
     (if c = CHR ''-'' then (True, cs) else if c = CHR ''+'' then (False, cs)
      else (False, c # cs))"
| "strip_sign [] = (False, [])"

fun strip_hex_prefix :: "string \<Rightarrow> nat \<times> string" where
  "strip_hex_prefix (a # b # cs) =
     (if a = CHR ''0'' \<and> (b = CHR ''x'' \<or> b = CHR ''X'') then (16, cs)
      else (10, a # b # cs))"
| "strip_hex_prefix cs = (10, cs)"

text \<open>
  \<^verbatim>\<open>parseInt(string)\<close> with no radix: leading white space is dropped, a sign is read, a
  \<^verbatim>\<open>0x\<close> prefix selects radix 16, and the longest run of digits is the value; with no
  digit the result is \<^verbatim>\<open>NaN\<close>. Whatever follows the digits is ignored.
\<close>

definition parseInt_str :: "string \<Rightarrow> jsnum" where
  "parseInt_str inp =
     (let (neg, s1) = strip_sign (dropWhile is_ws inp);
          (r, s2) = strip_hex_prefix s1;
          z = takeWhile (is_digit_radix r) s2
      in if z = [] then NaN
         else Fin (of_int ((if neg then - 1 else 1) * int (digits_value r z))))"

text \<open>
  \<^verbatim>\<open>parseInt\<close> first converts its argument to a string: \<^verbatim>\<open>undefined\<close> becomes the
  text "undefined". The only numbers the handlers pass are their integer defaults
  (\<^verbatim>\<open>9999\<close>, \<^verbatim>\<open>9\<close>, \<^verbatim>\<open>1\<close>), whose decimal text parses back to the integer part.
\<close>

definition parseInt :: "jsval \<Rightarrow> jsnum" where
  "parseInt v = (case v of
       Undefined \<Rightarrow> parseInt_str ''undefined''
     | Str s \<Rightarrow> parseInt_str s
     | Num (Fin x) \<Rightarrow> Fin (of_int (if x < 0 then \<lceil>x\<rceil> else \<lfloor>x\<rfloor>))
     | Num _ \<Rightarrow> NaN)"

definition pow10 :: "int \<Rightarrow> rat" where
  "pow10 e = (if e < 0 then 1 / 10 ^ nat (- e) else 10 ^ nat e)"

fun strip_word :: "string \<Rightarrow> string \<Rightarrow> string option" where
  "strip_word [] s = Some s"
| "strip_word (w # ws) [] = None"
| "strip_word (w # ws) (c # cs) = (if w = c then strip_word ws cs else None)"

definition scan_exponent :: "string \<Rightarrow> int \<times> string" where
  "scan_exponent s = (case s of
       [] \<Rightarrow> (0, s)
     | c # cs \<Rightarrow>
         if c = CHR ''e'' \<or> c = CHR ''E'' then
           (let (neg, s1) = strip_sign cs; ds = takeWhile (is_digit_radix 10) s1
            in if ds = [] then (0, s)
               else ((if neg then - 1 else 1) * int (digits_value 10 ds),
                     dropWhile (is_digit_radix 10) s1))
         else (0, s))"

text \<open>The longest prefix that is an unsigned decimal literal, with what follows it.\<close>

definition scan_unsigned :: "string \<Rightarrow> (jsnum \<times> string) option" where
  "scan_unsigned s = (case strip_word ''Infinity'' s of
       Some rest \<Rightarrow> Some (PosInf, rest)
     | None \<Rightarrow>
        (let ip = takeWhile (is_digit_radix 10) s;
             r1 = dropWhile (is_digit_radix 10) s;
             has_dot = (case r1 of [] \<Rightarrow> False | c # _ \<Rightarrow> c = CHR ''.'');
             fp = (if has_dot then takeWhile (is_digit_radix 10) (tl r1) else []);
             r2 = (if has_dot then dropWhile (is_digit_radix 10) (tl r1) else r1)
         in if ip = [] \<and> fp = [] then None
            else (let (e, r3) = scan_exponent r2;
                      m = of_nat (digits_value 10 ip)
                          + of_nat (digits_value 10 fp) / 10 ^ length fp
                  in Some (Fin (m * pow10 e), r3))))"

definition parseFloat_str :: "string \<Rightarrow> jsnum" where
  "parseFloat_str inp =
     (let (neg, s1) = strip_sign (dropWhile is_ws inp)
      in case scan_unsigned s1 of
           None \<Rightarrow> NaN
         | Some (v, _) \<Rightarrow> if neg then js_neg v else v)"

text \<open>
  A request field is a string or is absent; an absent field reads as \<^verbatim>\<open>undefined\<close>.
  The handlers hand no number to \<^verbatim>\<open>parseFloat\<close>.
\<close>

definition js_of :: "string option \<Rightarrow> jsval" where
  "js_of v = (case v of None \<Rightarrow> Undefined | Some s \<Rightarrow> Str s)"

definition or_number :: "string option \<Rightarrow> jsnum \<Rightarrow> jsval" where
  "or_number v d = (case v of None \<Rightarrow> Num d | Some s \<Rightarrow> Str s)"

definition parseFloat :: "jsval \<Rightarrow> jsnum" where
  "parseFloat v = (case v of
       Undefined \<Rightarrow> parseFloat_str ''undefined''
     | Str s \<Rightarrow> parseFloat_str s
     | Num n \<Rightarrow> n)"

text \<open>
  Arithmetic on a string (\<^verbatim>\<open>page - 1\<close>, \<^verbatim>\<open>totalProducts / limit\<close>) coerces it with
  \<^verbatim>\<open>ToNumber\<close>: the whole trimmed string must be a numeric literal, the empty string is 0.
\<close>

definition radix_literal :: "string \<Rightarrow> jsnum option" where
  "radix_literal s = (case s of
       a # b # ds \<Rightarrow>
         (let r = (if a \<noteq> CHR ''0'' then 0
                   else if b = CHR ''x'' \<or> b = CHR ''X'' then 16
                   else if b = CHR ''o'' \<or> b = CHR ''O'' then 8
                   else if b = CHR ''b'' \<or> b = CHR ''B'' then (2::nat)
                   else 0)
          in if r = 0 then None
             else if ds \<noteq> [] \<and> list_all (is_digit_radix r) ds
               then Some (Fin (of_nat (digits_value r ds)))
             else Some NaN)
     | _ \<Rightarrow> None)"

definition ToNumber_str :: "string \<Rightarrow> jsnum" where
  "ToNumber_str inp =
     (let s = rev (dropWhile is_ws (rev (dropWhile is_ws inp)))
      in if s = [] then Fin 0
         else case radix_literal s of
           Some v \<Rightarrow> v
         | None \<Rightarrow>
            (let (neg, s1) = strip_sign s
             in case scan_unsigned s1 of
                  Some (v, []) \<Rightarrow> if neg then js_neg v else v
                | _ \<Rightarrow> NaN))"

definition ToNumber :: "jsval \<Rightarrow> jsnum" where
  "ToNumber v = (case v of Undefined \<Rightarrow> NaN | Str s \<Rightarrow> ToNumber_str s | Num n \<Rightarrow> n)"


section \<open>Errors and responses\<close>

text \<open>
  Every handler body is a \<^verbatim>\<open>try\<close> block: whatever the store, the media host or a parser
  throws is an error value here, and the \<^verbatim>\<open>catch\<close> branch turns it into a response.
  \<^verbatim>\<open>CastError\<close> is the error name the handlers of \<^verbatim>\<open>server.js\<close> test for.
\<close>

datatype js_error = SyntaxError | CastError | ValidationError | DuplicateKey | UploadFailed
  | BadValue | IllegalArguments

record product =
  p_id :: string
  name :: string
  description :: string
  price :: jsnum
  original_price :: "jsnum option"
  quantity :: jsnum
  category :: string
  subcategory :: string
  p_image :: string
  specs :: "string list"
  createdAt :: nat

record listing =
  products :: "product list"
  currentPage :: jsnum
  totalPages :: jsnum
  totalProducts :: nat

datatype body =
    Message string
  | ServerError string js_error
  | Registered string string string
  | LoggedIn string string string
  | ProductJson product
  | Listing listing

record response =
  status :: nat
  body :: body

definition reply :: "nat \<Rightarrow> body \<Rightarrow> response" where
  "reply code b = \<lparr>status = code, body = b\<rparr>"

section \<open>Regular expressions of the search filter\<close>

text \<open>
  The search string is compiled as a regular expression with flag \<^verbatim>\<open>i\<close>. The model
  covers the patterns made of ordinary characters and the dot: an ordinary character
  matches itself up to letter case, the dot matches any character but a line break. A
  pattern that begins with a quantifier is a syntax error. Every other pattern that holds
  a syntax character is outside the model: \<open>RegExp_i\<close> gives \<open>None\<close> for it.
\<close>

datatype atom = Lit char | AnyChar

definition syntax_char :: "char \<Rightarrow> bool" where
  "syntax_char c = (c \<in> set ''^$.*+?()[]{}|'' \<or> c = CHR 0x5C)"

fun compile_atoms :: "string \<Rightarrow> atom list option" where
  "compile_atoms [] = Some []"
| "compile_atoms (c # cs) =
     (if c = CHR ''.'' then map_option (Cons AnyChar) (compile_atoms cs)
      else if syntax_char c then None
      else map_option (Cons (Lit c)) (compile_atoms cs))"

definition RegExp_i :: "string \<Rightarrow> (js_error + atom list) option" where
  "RegExp_i src = (case src of
       [] \<Rightarrow> Some (Inr [])
     | c # _ \<Rightarrow>
         if c = CHR ''*'' \<or> c = CHR ''+'' \<or> c = CHR ''?'' then Some (Inl SyntaxError)
         else map_option Inr (compile_atoms src))"

definition canon :: "char \<Rightarrow> char" where
  "canon c = (let n = (of_char c :: nat) in if 97 \<le> n \<and> n \<le> 122 then char_of (n - 32) else c)"

fun atom_ok :: "atom \<Rightarrow> char \<Rightarrow> bool" where
  "atom_ok (Lit a) c = (canon a = canon c)"
| "atom_ok AnyChar c = (c \<noteq> CHR 0x0A \<and> c \<noteq> CHR 0x0D)"

fun match_here :: "atom list \<Rightarrow> string \<Rightarrow> bool" where
  "match_here [] s = True"
| "match_here (a # as) [] = False"
| "match_here (a # as) (c # cs) = (atom_ok a c \<and> match_here as cs)"

fun regex_test :: "atom list \<Rightarrow> string \<Rightarrow> bool" where
  "regex_test as [] = match_here as []"
| "regex_test as (c # cs) = (match_here as (c # cs) \<or> regex_test as cs)"

text \<open>
  The wording of the specification, for comparison: the search string occurs in a field
  as a substring, letter case ignored.
\<close>

definition ci_substring :: "string \<Rightarrow> string \<Rightarrow> bool" where
  "ci_substring s t = sublist (map canon s) (map canon t)"

section \<open>The catalog store\<close>

text \<open>
  The store query built by the listing handlers: the \<^verbatim>\<open>$or\<close> of the search expression
  over five fields, and the exact category. A field that holds a sequence (\<^verbatim>\<open>specs\<close>)
  satisfies an expression when one of its entries does.
\<close>

record filter =
  f_or :: "atom list option"
  f_category :: "string option"

definition matches :: "filter \<Rightarrow> product \<Rightarrow> bool" where
  "matches q p =
     ((case f_or q of
         None \<Rightarrow> True
       | Some re \<Rightarrow> regex_test re (name p) \<or> regex_test re (description p)
           \<or> regex_test re (category p) \<or> regex_test re (subcategory p)
           \<or> list_ex (regex_test re) (specs p))
      \<and> (case f_category q of None \<Rightarrow> True | Some c \<Rightarrow> category p = c))"

definition countDocuments :: "product list \<Rightarrow> filter \<Rightarrow> nat" where
  "countDocuments store q = length (filter (matches q) store)"

definition newest_first :: "product list \<Rightarrow> product list" where
  "newest_first ps = sort_key (\<lambda>p. - int (createdAt p)) ps"

text \<open>
  What the store does with the \<^verbatim>\<open>skip\<close> and \<^verbatim>\<open>limit\<close> it is handed is the store's
  business, and differs between its versions when a value is not a natural number. The
  handlers take it as a parameter \<open>cursor\<close>; \<open>strict_cursor\<close> is the instance that
  refuses such values, \<open>lenient_cursor\<close> the one that reads them as absent. For both, a
  limit of 0 is no limit.
\<close>

type_synonym cursor = "jsnum \<Rightarrow> jsnum \<Rightarrow> product list \<Rightarrow> js_error + product list"

definition as_nat :: "jsnum \<Rightarrow> nat option" where
  "as_nat a = (case a of
       Fin x \<Rightarrow> if 0 \<le> x \<and> of_int \<lfloor>x\<rfloor> = x then Some (nat \<lfloor>x\<rfloor>) else None
     | _ \<Rightarrow> None)"

definition window :: "nat \<Rightarrow> nat \<Rightarrow> 'a list \<Rightarrow> 'a list" where
  "window s l xs = (if l = 0 then drop s xs else take l (drop s xs))"

definition strict_cursor :: cursor where
  "strict_cursor sk lm xs = (case (as_nat sk, as_nat lm) of
       (Some s, Some l) \<Rightarrow> Inr (window s l xs)
     | _ \<Rightarrow> Inl BadValue)"

definition lenient_cursor :: cursor where
  "lenient_cursor sk lm xs =
     Inr (window (case as_nat sk of Some s \<Rightarrow> s | None \<Rightarrow> 0)
                 (case as_nat lm of Some l \<Rightarrow> l | None \<Rightarrow> 0) xs)"

text \<open>
  Identifiers are the store's object ids: 24 hexadecimal digits. Any other text makes a
  lookup by id fail with \<^verbatim>\<open>CastError\<close>. The store casts the text to an object id
  before it looks the record up, so two spellings of the same digits that differ in
  letter case name the same record: \<open>object_id\<close> is the spelling in upper case.
\<close>

definition well_formed_id :: "string \<Rightarrow> bool" where
  "well_formed_id i = (length i = 24 \<and> list_all (is_digit_radix 16) i)"

definition object_id :: "string \<Rightarrow> string" where
  "object_id i = map canon i"


section \<open>The credential store and the authentication routes\<close>

record user =
  u_id :: string
  username :: string
  password :: string
  role :: string

text \<open>
  The JSON body of \<^verbatim>\<open>/api/register\<close> and \<^verbatim>\<open>/api/login\<close>: each field is a string or is
  absent. \<open>str\<close> reads a field that the handler has already found truthy.
\<close>

record auth_body =
  b_username :: "string option"
  b_password :: "string option"
  b_role :: "string option"

definition str :: "string option \<Rightarrow> string" where
  "str v = (case v of None \<Rightarrow> [] | Some s \<Rightarrow> s)"

definition or_default :: "string option \<Rightarrow> string \<Rightarrow> string" where
  "or_default v d = (if truthy v then str v else d)"

definition findOne_user :: "user list \<Rightarrow> string \<Rightarrow> user option" where
  "findOne_user store uname = find (\<lambda>u. username u = uname) store"

text \<open>
  Modelled from the spec: the schema of \<^verbatim>\<open>models/User.js\<close>, which is not among the
  sources. The specification gives \<^verbatim>\<open>role\<close> as an enumerated value, one of
  \<^verbatim>\<open>{user, admin}\<close>, and the uniqueness of \<^verbatim>\<open>username\<close> as enforced by the store;
  saving a record that breaks either fails.
\<close>

definition user_schema_ok :: "user \<Rightarrow> bool" where
  "user_schema_ok u = (role u = ''user'' \<or> role u = ''admin'')"

definition save_user :: "user list \<Rightarrow> user \<Rightarrow> js_error + user list" where
  "save_user store u =
     (if \<not> user_schema_ok u then Inl ValidationError
      else if list_ex (\<lambda>v. username v = username u) store then Inl DuplicateKey
      else Inr (store @ [u]))"

text \<open>
  \<^verbatim>\<open>POST /api/register\<close>. The password hash (\<^verbatim>\<open>bcrypt.hash(password, 10)\<close>) and the
  identifier of the new record come from outside the handler: they are the parameters
  \<open>hash\<close> and \<open>new_id\<close>. The result is the response and the credential store after the
  request.
\<close>

definition register ::
  "(string \<Rightarrow> string) \<Rightarrow> string \<Rightarrow> user list \<Rightarrow> auth_body \<Rightarrow> response \<times> user list" where
  "register hash new_id store b =
     (if \<not> truthy (b_username b) \<or> \<not> truthy (b_password b)
      then (reply 400 (Message ''Username and password are required''), store)
      else case findOne_user store (str (b_username b)) of
        Some existingUser \<Rightarrow> (reply 409 (Message ''Username already exists''), store)
      | None \<Rightarrow>
         (let newUser = \<lparr>u_id = new_id, username = str (b_username b),
                         password = hash (str (b_password b)),
                         role = or_default (b_role b) ''user''\<rparr>
          in case save_user store newUser of
               Inl e \<Rightarrow> (reply 500 (ServerError ''Server error'' e), store)
             | Inr store' \<Rightarrow>
                 (reply 201 (Registered ''User registered successfully''
                               (u_id newUser) (username newUser)), store')))"

text \<open>
  \<^verbatim>\<open>POST /api/login\<close>. The user name of the JSON body is a string or is absent (a number
  would reach the store as its decimal text); the password is whatever JSON value the
  client sent. \<open>compare\<close> is \<^verbatim>\<open>bcrypt.compare\<close> (the password against the stored
  hash): it answers whether they match, or rejects, and a rejection lands in the
  handler's \<^verbatim>\<open>catch\<close> branch. \<open>sign\<close> is \<^verbatim>\<open>jwt.sign\<close> applied to the identifier, the
  name and the role.
\<close>

record login_body =
  l_username :: "string option"
  l_password :: jsval

definition truthy_val :: "jsval \<Rightarrow> bool" where
  "truthy_val v = (case v of
       Undefined \<Rightarrow> False
     | Str s \<Rightarrow> s \<noteq> []
     | Num n \<Rightarrow> n \<noteq> NaN \<and> n \<noteq> Fin 0)"

definition login ::
  "(jsval \<Rightarrow> string \<Rightarrow> js_error + bool) \<Rightarrow> (string \<Rightarrow> string \<Rightarrow> string \<Rightarrow> string)
     \<Rightarrow> user list \<Rightarrow> login_body \<Rightarrow> response" where
  "login compare sign store b =
     (if \<not> truthy (l_username b) \<or> \<not> truthy_val (l_password b)
      then reply 400 (Message ''Username and password are required'')
      else case findOne_user store (str (l_username b)) of
        None \<Rightarrow> reply 401 (Message ''Invalid credentials'')
      | Some user \<Rightarrow>
         (case compare (l_password b) (password user) of
            Inl e \<Rightarrow> reply 500 (ServerError ''Server error'' e)
          | Inr isMatch \<Rightarrow>
              if \<not> isMatch
              then reply 401 (Message ''Invalid credentials'')
              else reply 200 (LoggedIn ''Login successful''
                     (sign (u_id user) (username user) (role user)) (role user))))"

text \<open>
  A credential store and helpers for the worked examples below. \<open>demo_compare\<close> does what
  the password library does with its arguments: it rejects a password that is not a
  string, and compares a string with the stored hash.
\<close>

definition alice :: user where
  "alice = \<lparr>u_id = ''u1'', username = ''alice'', password = ''#secret123'', role = ''user''\<rparr>"

definition demo_hash :: "string \<Rightarrow> string" where
  "demo_hash pw = CHR ''#'' # pw"

definition demo_compare :: "jsval \<Rightarrow> string \<Rightarrow> js_error + bool" where
  "demo_compare pw h = (case pw of Str s \<Rightarrow> Inr (h = demo_hash s) | _ \<Rightarrow> Inl IllegalArguments)"

definition demo_sign :: "string \<Rightarrow> string \<Rightarrow> string \<Rightarrow> string" where
  "demo_sign i n r = i @ ''.'' @ n @ ''.'' @ r"

definition creds :: "string \<Rightarrow> string \<Rightarrow> auth_body" where
  "creds n pw = \<lparr>b_username = Some n, b_password = Some pw, b_role = None\<rparr>"

definition login_creds :: "string \<Rightarrow> jsval \<Rightarrow> login_body" where
  "login_creds n pw = \<lparr>l_username = Some n, l_password = pw\<rparr>"

section \<open>The product routes\<close>

text \<open>
  The multipart body of a create or update request (\<^verbatim>\<open>req.body\<close>): every field is a
  string or is absent. \<^verbatim>\<open>req.file\<close> is the uploaded image, if any.
\<close>

record product_body =
  b_name :: "string option"
  b_description :: "string option"
  b_price :: "string option"
  b_originalPrice :: "string option"
  b_quantity :: "string option"
  b_category :: "string option"
  b_subCategory :: "string option"
  b_specs :: "string option"
  b_imageUrl :: "string option"

record upload_file =
  mimetype :: string
  buffer :: string

record product_req =
  req_file :: "upload_file option"
  req_body :: product_body

text \<open>
  The state the product handlers act on: the catalog store and the images the media host
  holds.
\<close>

record world =
  catalog :: "product list"
  media :: "upload_file list"

text \<open>
  The update document handed to \<^verbatim>\<open>findByIdAndUpdate\<close>; a field that is \<^verbatim>\<open>undefined\<close>
  leaves the stored field as it is.
\<close>

record product_update =
  u_name :: "string option"
  u_description :: "string option"
  u_price :: jsnum
  u_original_price :: "jsnum option"
  u_quantity :: jsnum
  u_category :: "string option"
  u_subcategory :: "string option"
  u_specs :: "string list"
  u_image :: "string option"

text \<open>
  What a handler gets from outside the sources. \<open>schema_ok\<close> and \<open>check_update\<close> are the
  validation of the product schema (\<^verbatim>\<open>models/Product.js\<close>) on a new record and on an
  update document; \<open>JSON_parse\<close> reads the text of \<^verbatim>\<open>specs\<close>, \<open>None\<close> when the text
  is not JSON (a \<^verbatim>\<open>SyntaxError\<close>); \<open>secure_url\<close> is the
  media host's answer to an upload, \<open>None\<close> when the upload fails; \<open>fresh_id\<close> and
  \<open>clock\<close> are the identifier and the creation time the store gives a new record.
\<close>

record env =
  schema_ok :: "product \<Rightarrow> bool"
  check_update :: "product_update \<Rightarrow> js_error option"
  JSON_parse :: "string \<Rightarrow> string list option"
  secure_url :: "string option"
  fresh_id :: string
  clock :: nat

definition save_product :: "env \<Rightarrow> product list \<Rightarrow> product \<Rightarrow> js_error + product list" where
  "save_product E store p = (if schema_ok E p then Inr (store @ [p]) else Inl ValidationError)"

definition apply_update :: "product_update \<Rightarrow> product \<Rightarrow> product" where
  "apply_update upd p =
     p\<lparr>name := (case u_name upd of None \<Rightarrow> name p | Some v \<Rightarrow> v),
       description := (case u_description upd of None \<Rightarrow> description p | Some v \<Rightarrow> v),
       price := u_price upd,
       original_price := (case u_original_price upd of None \<Rightarrow> original_price p | Some v \<Rightarrow> Some v),
       quantity := u_quantity upd,
       category := (case u_category upd of None \<Rightarrow> category p | Some v \<Rightarrow> v),
       subcategory := (case u_subcategory upd of None \<Rightarrow> subcategory p | Some v \<Rightarrow> v),
       specs := u_specs upd,
       p_image := (case u_image upd of None \<Rightarrow> p_image p | Some v \<Rightarrow> v)\<rparr>"

definition findByIdAndUpdate ::
  "env \<Rightarrow> product list \<Rightarrow> string \<Rightarrow> product_update
     \<Rightarrow> js_error + (product option \<times> product list)" where
  "findByIdAndUpdate E store pid upd =
     (if \<not> well_formed_id pid then Inl CastError
      else case check_update E upd of
        Some e \<Rightarrow> Inl e
      | None \<Rightarrow>
         (case find (\<lambda>p. object_id (p_id p) = object_id pid) store of
            None \<Rightarrow> Inr (None, store)
          | Some p \<Rightarrow>
              Inr (Some (apply_update upd p),
                   map (\<lambda>q. if object_id (p_id q) = object_id pid
                             then apply_update upd p else q) store)))"

definition findByIdAndDelete ::
  "product list \<Rightarrow> string \<Rightarrow> js_error + (product option \<times> product list)" where
  "findByIdAndDelete store pid =
     (if \<not> well_formed_id pid then Inl CastError
      else case find (\<lambda>p. object_id (p_id p) = object_id pid) store of
        None \<Rightarrow> Inr (None, store)
      | Some p \<Rightarrow> Inr (Some p, filter (\<lambda>q. object_id (p_id q) \<noteq> object_id pid) store))"

text \<open>
  The \<^verbatim>\<open>catch\<close> branches. Those of \<^verbatim>\<open>server.js\<close> for a route with an identifier answer
  400 when the error is named \<^verbatim>\<open>CastError\<close>; those of \<^verbatim>\<open>routes/products.js\<close> answer 500
  whatever the error.
\<close>

definition server_error :: "js_error \<Rightarrow> response" where
  "server_error e = reply 500 (ServerError ''Server error'' e)"

definition catch_by_id :: "js_error \<Rightarrow> response" where
  "catch_by_id e =
     (if e = CastError then reply 400 (Message ''Invalid product ID format'')
      else reply 500 (ServerError ''Server error'' e))"

definition router_catch :: "js_error \<Rightarrow> response" where
  "router_catch e = reply 500 (ServerError ''Server Error'' e)"

definition required_fields :: "product_body \<Rightarrow> bool" where
  "required_fields b =
     (\<not> (\<not> truthy (b_name b) \<or> \<not> truthy (b_description b) \<or> \<not> truthy (b_price b)
         \<or> \<not> truthy (b_quantity b) \<or> \<not> truthy (b_category b)
         \<or> \<not> truthy (b_subCategory b)))"

definition parse_specs :: "env \<Rightarrow> string option \<Rightarrow> js_error + string list" where
  "parse_specs E v =
     (if truthy v then
        (case JSON_parse E (str v) of None \<Rightarrow> Inl SyntaxError | Some sp \<Rightarrow> Inr sp)
      else Inr [])"

definition optional_price :: "string option \<Rightarrow> jsnum option" where
  "optional_price v = (if truthy v then Some (parseFloat (js_of v)) else None)"

text \<open>The record \<^verbatim>\<open>new Product({...})\<close> that the create handler builds from the body.\<close>

definition build_product :: "env \<Rightarrow> string \<Rightarrow> product_body \<Rightarrow> string list \<Rightarrow> product" where
  "build_product E url b sp =
     \<lparr>p_id = fresh_id E,
      name = str (b_name b),
      description = str (b_description b),
      price = parseFloat (js_of (b_price b)),
      original_price = optional_price (b_originalPrice b),
      quantity = parseInt (js_of (b_quantity b)),
      category = str (b_category b),
      subcategory = str (b_subCategory b),
      p_image = url,
      specs = sp,
      createdAt = clock E\<rparr>"

text \<open>
  \<^verbatim>\<open>POST /api/products\<close> of \<^verbatim>\<open>server.js\<close>, as reached once the token and role
  middleware have let the request through. In the order of the source: the file is
  required, the image is uploaded, the required fields are checked, the record is built
  and saved.
\<close>

definition create_product :: "env \<Rightarrow> world \<Rightarrow> product_req \<Rightarrow> response \<times> world" where
  "create_product E w req =
     (case req_file req of
        None \<Rightarrow> (reply 400 (Message ''No image file uploaded''), w)
      | Some f \<Rightarrow>
         (case secure_url E of
            None \<Rightarrow> (server_error UploadFailed, w)
          | Some url \<Rightarrow>
             (let w1 = w\<lparr>media := media w @ [f]\<rparr>; b = req_body req
              in if \<not> required_fields b
                 then (reply 400 (Message
                   ''Missing required product fields: name, description, price, quantity, category, subCategory''), w1)
                 else case parse_specs E (b_specs b) of
                   Inl e \<Rightarrow> (server_error e, w1)
                 | Inr sp \<Rightarrow>
                    (let newProduct = build_product E url b sp
                     in case save_product E (catalog w1) newProduct of
                          Inl e \<Rightarrow> (server_error e, w1)
                        | Inr store' \<Rightarrow>
                            (reply 201 (ProductJson newProduct), w1\<lparr>catalog := store'\<rparr>)))))"

text \<open>The update document both update handlers build from the body.\<close>

definition update_doc :: "product_body \<Rightarrow> string list \<Rightarrow> string option \<Rightarrow> product_update" where
  "update_doc b sp img =
     \<lparr>u_name = b_name b,
      u_description = b_description b,
      u_price = parseFloat (js_of (b_price b)),
      u_original_price = optional_price (b_originalPrice b),
      u_quantity = parseInt (js_of (b_quantity b)),
      u_category = b_category b,
      u_subcategory = b_subCategory b,
      u_specs = sp,
      u_image = img\<rparr>"

text \<open>
  \<^verbatim>\<open>PUT /api/products/:id\<close> of \<^verbatim>\<open>server.js\<close>. \<open>upload_step\<close> is its first part: the
  image is the \<^verbatim>\<open>imageUrl\<close> of the body, or, when the request has a file, the address
  the media host answers the upload with.
\<close>

definition upload_step ::
  "env \<Rightarrow> world \<Rightarrow> product_req \<Rightarrow> js_error + (string option \<times> world)" where
  "upload_step E w req =
     (case req_file req of
        None \<Rightarrow> Inr (b_imageUrl (req_body req), w)
      | Some f \<Rightarrow>
         (case secure_url E of
            None \<Rightarrow> Inl UploadFailed
          | Some url \<Rightarrow> Inr (Some url, w\<lparr>media := media w @ [f]\<rparr>)))"

definition update_product ::
  "env \<Rightarrow> world \<Rightarrow> string \<Rightarrow> product_req \<Rightarrow> response \<times> world" where
  "update_product E w pid req =
     (let b = req_body req
      in case upload_step E w req of
           Inl e \<Rightarrow> (catch_by_id e, w)
         | Inr (image_url, w1) \<Rightarrow>
            (case parse_specs E (b_specs b) of
               Inl e \<Rightarrow> (catch_by_id e, w1)
             | Inr sp \<Rightarrow>
                (case findByIdAndUpdate E (catalog w1) pid (update_doc b sp image_url) of
                   Inl e \<Rightarrow> (catch_by_id e, w1)
                 | Inr (None, _) \<Rightarrow> (reply 404 (Message ''Product not found''), w1)
                 | Inr (Some updatedProduct, store') \<Rightarrow>
                     (reply 200 (ProductJson updatedProduct), w1\<lparr>catalog := store'\<rparr>))))"

text \<open>\<^verbatim>\<open>DELETE /api/products/:id\<close> of \<^verbatim>\<open>server.js\<close>.\<close>

definition delete_product :: "world \<Rightarrow> string \<Rightarrow> response \<times> world" where
  "delete_product w pid =
     (case findByIdAndDelete (catalog w) pid of
        Inl e \<Rightarrow> (catch_by_id e, w)
      | Inr (None, _) \<Rightarrow> (reply 404 (Message ''Product not found''), w)
      | Inr (Some deletedProduct, store') \<Rightarrow>
          (reply 200 (Message ''Product deleted successfully''), w\<lparr>catalog := store'\<rparr>))"

section \<open>The listing routes\<close>

record list_query =
  q_page :: "string option"
  q_limit :: "string option"
  q_search :: "string option"
  q_category :: "string option"

text \<open>
  The query both listing handlers build. \<^verbatim>\<open>server.js\<close> compiles the search string
  itself (\<^verbatim>\<open>new RegExp(search, 'i')\<close>), \<^verbatim>\<open>routes/products.js\<close> hands the text to the
  store with option \<^verbatim>\<open>i\<close>: either way a pattern that does not compile ends in the
  handler's \<^verbatim>\<open>catch\<close>. The result is \<open>None\<close> when the pattern is outside the modelled
  expressions.
\<close>

definition search_regex :: "string option \<Rightarrow> (js_error + atom list option) option" where
  "search_regex v =
     (if truthy v then
        (case RegExp_i (str v) of
           None \<Rightarrow> None
         | Some (Inl e) \<Rightarrow> Some (Inl e)
         | Some (Inr re) \<Rightarrow> Some (Inr (Some re)))
      else Some (Inr None))"

definition category_filter :: "string option \<Rightarrow> string option" where
  "category_filter v = (if truthy v \<and> str v \<noteq> ''All'' then Some (str v) else None)"

definition build_query :: "list_query \<Rightarrow> (js_error + filter) option" where
  "build_query q =
     (case search_regex (q_search q) of
        None \<Rightarrow> None
      | Some (Inl e) \<Rightarrow> Some (Inl e)
      | Some (Inr re) \<Rightarrow>
          Some (Inr \<lparr>f_or = re, f_category = category_filter (q_category q)\<rparr>))"

text \<open>
  \<^verbatim>\<open>GET /api/products\<close> of \<^verbatim>\<open>server.js\<close>: \<^verbatim>\<open>page\<close> has no default, \<^verbatim>\<open>limit\<close> defaults to
  9999, and both go through \<^verbatim>\<open>parseInt\<close>.
\<close>

definition app_skip :: "list_query \<Rightarrow> jsnum" where
  "app_skip q =
     js_mul (js_sub (parseInt (js_of (q_page q))) (Fin 1))
            (parseInt (or_number (q_limit q) (Fin 9999)))"

definition app_limit :: "list_query \<Rightarrow> jsnum" where
  "app_limit q = parseInt (or_number (q_limit q) (Fin 9999))"

definition list_products :: "cursor \<Rightarrow> product list \<Rightarrow> list_query \<Rightarrow> response option" where
  "list_products cur store q =
     (case build_query q of
        None \<Rightarrow> None
      | Some (Inl e) \<Rightarrow> Some (server_error e)
      | Some (Inr query) \<Rightarrow>
         (case cur (app_skip q) (app_limit q) (newest_first (filter (matches query) store)) of
            Inl e \<Rightarrow> Some (server_error e)
          | Inr ps \<Rightarrow>
             (let total = countDocuments store query
              in Some (reply 200 (Listing
                   \<lparr>products = ps,
                    currentPage = parseInt (js_of (q_page q)),
                    totalPages = Math_ceil (js_div (Fin (of_nat total)) (app_limit q)),
                    totalProducts = total\<rparr>)))))"

text \<open>
  \<^verbatim>\<open>GET /\<close> of \<^verbatim>\<open>routes/products.js\<close>: \<^verbatim>\<open>page\<close> defaults to 1 and \<^verbatim>\<open>limit\<close> to 9; the
  skip and the page count coerce the strings by arithmetic, the limit and the returned
  page go through \<^verbatim>\<open>parseInt\<close>. There is no sort.
\<close>

definition router_skip :: "list_query \<Rightarrow> jsnum" where
  "router_skip q =
     js_mul (js_sub (ToNumber (or_number (q_page q) (Fin 1))) (Fin 1))
            (ToNumber (or_number (q_limit q) (Fin 9)))"

definition router_limit :: "list_query \<Rightarrow> jsnum" where
  "router_limit q = parseInt (or_number (q_limit q) (Fin 9))"

definition router_list :: "cursor \<Rightarrow> product list \<Rightarrow> list_query \<Rightarrow> response option" where
  "router_list cur store q =
     (case build_query q of
        None \<Rightarrow> None
      | Some (Inl e) \<Rightarrow> Some (router_catch e)
      | Some (Inr query) \<Rightarrow>
         (case cur (router_skip q) (router_limit q) (filter (matches query) store) of
            Inl e \<Rightarrow> Some (router_catch e)
          | Inr ps \<Rightarrow>
             (let total = countDocuments store query
              in Some (reply 200 (Listing
                   \<lparr>products = ps,
                    currentPage = parseInt (or_number (q_page q) (Fin 1)),
                    totalPages = Math_ceil (js_div (Fin (of_nat total))
                                   (ToNumber (or_number (q_limit q) (Fin 9)))),
                    totalProducts = total\<rparr>)))))"

text \<open>
  Products, requests and an environment for the worked examples below. The schema of the
  examples refuses a price or quantity that is \<^verbatim>\<open>NaN\<close>, on a new record
  (\<open>no_nan\<close>, a validation error) and in an update document (\<open>no_nan_update\<close>, a cast
  error); \<open>demo_json\<close> reads the JSON text of the empty list and refuses any other.
\<close>

definition glove :: product where
  "glove = \<lparr>p_id = ''0123456789abcdef01234567'', name = ''Glove'',
     description = ''Leather'', price = Fin 10, original_price = None, quantity = Fin 3,
     category = ''Gloves'', subcategory = ''Winter'', p_image = ''http://img/1'',
     specs = [''warm''], createdAt = 1\<rparr>"

definition list_all_query :: list_query where
  "list_all_query = \<lparr>q_page = None, q_limit = None, q_search = None, q_category = None\<rparr>"

definition photo :: upload_file where
  "photo = \<lparr>mimetype = ''image/png'', buffer = ''PNG''\<rparr>"

definition glove_body :: product_body where
  "glove_body = \<lparr>b_name = Some ''Glove'', b_description = Some ''Leather'',
     b_price = Some ''abc'', b_originalPrice = None, b_quantity = Some ''3'',
     b_category = Some ''Gloves'', b_subCategory = Some ''Winter'', b_specs = None,
     b_imageUrl = None\<rparr>"

definition priced_body :: product_body where
  "priced_body = glove_body\<lparr>b_price := Some ''12.5'', b_originalPrice := Some ''15''\<rparr>"

definition no_nan :: "product \<Rightarrow> bool" where
  "no_nan p = (price p \<noteq> NaN \<and> quantity p \<noteq> NaN)"

definition no_nan_update :: "product_update \<Rightarrow> js_error option" where
  "no_nan_update u = (if u_price u = NaN \<or> u_quantity u = NaN then Some CastError else None)"

definition demo_json :: "string \<Rightarrow> string list option" where
  "demo_json s = (if s = ''[]'' then Some [] else None)"

definition demo_env :: "(product \<Rightarrow> bool) \<Rightarrow> env" where
  "demo_env ok = \<lparr>schema_ok = ok, check_update = no_nan_update,
     JSON_parse = demo_json, secure_url = Some ''http://img/2'',
     fresh_id = ''0123456789abcdef01234568'', clock = 2\<rparr>"

definition empty_world :: world where
  "empty_world = \<lparr>catalog = [], media = []\<rparr>"


definition nameless_req :: product_req where
  "nameless_req = \<lparr>req_file = Some photo, req_body = glove_body\<lparr>b_name := None\<rparr>\<rparr>"


definition plain_req :: product_req where
  "plain_req = \<lparr>req_file = None, req_body = priced_body\<rparr>"

definition bad_specs_req :: product_req where
  "bad_specs_req = \<lparr>req_file = None, req_body = priced_body\<lparr>b_specs := Some ''not json''\<rparr>\<rparr>"

definition glove_at :: "nat \<Rightarrow> product" where
  "glove_at n = glove\<lparr>createdAt := n\<rparr>"

definition seeded :: "product list" where
  "seeded = [glove_at 1, glove_at 2, glove_at 3, glove_at 4, glove_at 5]"

definition page2_query :: list_query where
  "page2_query = \<lparr>q_page = Some ''2'', q_limit = Some ''2'', q_search = None,
     q_category = Some ''Gloves''\<rparr>"

definition fractional_query :: list_query where
  "fractional_query = \<lparr>q_page = Some ''1'', q_limit = Some ''2.5'', q_search = None,
     q_category = None\<rparr>"

definition glove_world :: world where
  "glove_world = \<lparr>catalog = [glove], media = []\<rparr>"

section \<open>Auxiliary facts\<close>

lemma findOne_user_None:
  "findOne_user store n = None \<Longrightarrow> \<not> list_ex (\<lambda>v. username v = n) store"
  by (simp add: findOne_user_def find_None_iff list_ex_iff)

lemma or_default_absent: "or_default None d = d"
  by (simp add: or_default_def truthy_def)

lemma register_fresh:
  assumes "truthy (b_username b)" and "truthy (b_password b)"
    and "findOne_user store (str (b_username b)) = None"
  shows "register hash nid store b =
     (let u = \<lparr>u_id = nid, username = str (b_username b),
                password = hash (str (b_password b)), role = or_default (b_role b) ''user''\<rparr>
      in if user_schema_ok u
         then (reply 201 (Registered ''User registered successfully'' nid (username u)),
               store @ [u])
         else (reply 500 (ServerError ''Server error'' ValidationError), store))"
  using assms findOne_user_None [OF assms(3)]
  by (simp add: register_def save_user_def Let_def)

lemma js_mul_NaN_right: "js_mul a NaN = NaN"
  by (cases a) simp_all

lemma window_subset: "set (window s l xs) \<subseteq> set xs"
  by (auto simp: window_def dest: in_set_dropD in_set_takeD)

lemma strict_cursor_subset: "strict_cursor s l xs = Inr ys \<Longrightarrow> set ys \<subseteq> set xs"
  using window_subset [of _ _ xs]
  by (auto simp: strict_cursor_def split: option.splits)

lemma set_newest_first: "set (newest_first xs) = set xs"
  by (simp add: newest_first_def)

lemma one_as_text: "ToNumber_str ''1'' = Fin 1" "parseInt_str ''1'' = Fin 1"
  by code_simp+

lemma parse_specs_error: "parse_specs E v = Inl e \<Longrightarrow> e = SyntaxError"
  by (auto simp: parse_specs_def split: if_splits option.splits)

lemma upload_step_error: "upload_step E w req = Inl e \<Longrightarrow> e = UploadFailed"
  by (auto simp: upload_step_def split: option.splits)

subsection \<open>A pattern of ordinary characters is a substring test\<close>

lemma compile_atoms_literal:
  "list_all (\<lambda>c. \<not> syntax_char c) s \<Longrightarrow> compile_atoms s = Some (map Lit s)"
  by (induction s) (auto simp: syntax_char_def)

lemma match_here_literal: "match_here (map Lit s) t = prefix (map canon s) (map canon t)"
  by (induction "map Lit s" t arbitrary: s rule: match_here.induct) auto

lemma regex_test_literal: "regex_test (map Lit s) t = sublist (map canon s) (map canon t)"
proof (induction t)
  case Nil
  show ?case by (cases s) simp_all
next
  case (Cons c cs)
  then show ?case
    by (simp add: match_here_literal sublist_Cons_right del: match_here.simps)
qed

lemma RegExp_i_literal:
  assumes "list_all (\<lambda>c. \<not> syntax_char c) s"
  shows "RegExp_i s = Some (Inr (map Lit s))"
proof (cases s)
  case Nil
  then show ?thesis by (simp add: RegExp_i_def)
next
  case (Cons c cs)
  with assms have "\<not> syntax_char c" by simp
  then have "c \<noteq> CHR ''*'' \<and> c \<noteq> CHR ''+'' \<and> c \<noteq> CHR ''?''"
    by (auto simp: syntax_char_def)
  with Cons compile_atoms_literal [OF assms] show ?thesis
    by (simp add: RegExp_i_def)
qed

section \<open>Properties of the authentication routes\<close>

text \<open>
  When the password check answers "no match" without rejecting, the unknown user name
  and the wrong password get the same response.
\<close>

lemma login_failures_agree:
  assumes "truthy (l_username ra)" and "truthy_val (l_password ra)"
    and "truthy (l_username rb)" and "truthy_val (l_password rb)"
    and "findOne_user sa (str (l_username ra)) = None"
    and "findOne_user sb (str (l_username rb)) = Some u"
    and "compare (l_password rb) (password u) = Inr False"
  shows "login compare sign sa ra = login compare sign sb rb
       \<and> login compare sign sa ra = reply 401 (Message ''Invalid credentials'')"
  using assms by (simp add: login_def)

text \<open>
  C3. The claim asks that a login naming an unknown user and a login naming a stored user
  with a wrong password get the same status, 401. The handler does not do so for every
  such pair: when the password check rejects its argument (a password that is not a
  string), the login naming the stored user is answered 500 by the \<^verbatim>\<open>catch\<close> branch,
  while the login naming the unknown user, which never reaches the check, is answered
  401. The two statuses tell whether the user name is stored.
\<close>

theorem login_reveals_user:
  assumes "truthy (l_username ra)" and "truthy_val (l_password ra)"
    and "truthy (l_username rb)" and "truthy_val (l_password rb)"
    and "findOne_user sa (str (l_username ra)) = None"
    and "findOne_user sb (str (l_username rb)) = Some u"
    and "compare (l_password rb) (password u) = Inl e"
  shows "login compare sign sa ra = reply 401 (Message ''Invalid credentials'')
       \<and> login compare sign sb rb = reply 500 (ServerError ''Server error'' e)"
  using assms by (simp add: login_def)

theorem login_reveals_user_witness:
  "truthy (l_username (login_creds ''bob'' (Num (Fin 123))))
   \<and> truthy_val (l_password (login_creds ''bob'' (Num (Fin 123))))
   \<and> truthy (l_username (login_creds ''alice'' (Num (Fin 123))))
   \<and> truthy_val (l_password (login_creds ''alice'' (Num (Fin 123))))
   \<and> findOne_user [alice] (str (l_username (login_creds ''bob'' (Num (Fin 123))))) = None
   \<and> findOne_user [alice] (str (l_username (login_creds ''alice'' (Num (Fin 123))))) = Some alice
   \<and> demo_compare (l_password (login_creds ''alice'' (Num (Fin 123)))) (password alice)
       = Inl IllegalArguments
   \<and> login demo_compare demo_sign [alice] (login_creds ''bob'' (Num (Fin 123)))
       = reply 401 (Message ''Invalid credentials'')
   \<and> login demo_compare demo_sign [alice] (login_creds ''alice'' (Num (Fin 123)))
       = reply 500 (ServerError ''Server error'' IllegalArguments)"
proof -
  have h: "truthy (l_username (login_creds ''bob'' (Num (Fin 123))))"
    "truthy_val (l_password (login_creds ''bob'' (Num (Fin 123))))"
    "truthy (l_username (login_creds ''alice'' (Num (Fin 123))))"
    "truthy_val (l_password (login_creds ''alice'' (Num (Fin 123))))"
    "findOne_user [alice] (str (l_username (login_creds ''bob'' (Num (Fin 123))))) = None"
    "findOne_user [alice] (str (l_username (login_creds ''alice'' (Num (Fin 123))))) = Some alice"
    "demo_compare (l_password (login_creds ''alice'' (Num (Fin 123)))) (password alice)
       = Inl IllegalArguments"
    by (simp_all add: truthy_def truthy_val_def login_creds_def findOne_user_def str_def
        alice_def demo_compare_def)
  from login_reveals_user [where ra = "login_creds ''bob'' (Num (Fin 123))"
      and rb = "login_creds ''alice'' (Num (Fin 123))"
      and sa = "[alice]" and sb = "[alice]" and u = alice and compare = demo_compare
      and sign = demo_sign and e = IllegalArguments, OF h] h
  show ?thesis by blast
qed

text \<open>
  C5. A registration request that carries a user name and a password, and whose user name
  is already in the credential store, is answered 409 "Username already exists", and the
  credential store after the request is the store before it.
\<close>

theorem register_conflict:
  assumes "truthy (b_username b)" and "truthy (b_password b)"
    and "findOne_user store (str (b_username b)) = Some u"
  shows "register hash new_id store b = (reply 409 (Message ''Username already exists''), store)"
  using assms by (simp add: register_def)

theorem register_conflict_witness:
  "truthy (b_username (creds ''alice'' ''pw2'')) \<and> truthy (b_password (creds ''alice'' ''pw2''))
   \<and> findOne_user [alice] (str (b_username (creds ''alice'' ''pw2''))) = Some alice
   \<and> register demo_hash ''u2'' [alice] (creds ''alice'' ''pw2'')
       = (reply 409 (Message ''Username already exists''), [alice])"
proof -
  have h: "truthy (b_username (creds ''alice'' ''pw2''))" "truthy (b_password (creds ''alice'' ''pw2''))"
    "findOne_user [alice] (str (b_username (creds ''alice'' ''pw2''))) = Some alice"
    by (simp_all add: truthy_def creds_def findOne_user_def str_def alice_def)
  from register_conflict [where b = "creds ''alice'' ''pw2''" and store = "[alice]"
      and u = alice and hash = demo_hash and new_id = "''u2''", OF h] h
  show ?thesis by blast
qed

text \<open>
  C4. A registration that creates a user record (status 201) appends exactly one record,
  and its role is "user" or "admin"; when the request has no role field the role is
  "user". A registration with any other status leaves the store as it was. A request
  with a user name, a password, no role and a name the store does not hold is answered
  201. The bound on the role rests on the schema of the user model, taken from the
  specification.
\<close>

theorem register_role:
  assumes "register hash nid store b = (r, store')"
  shows "(status r = 201 \<longrightarrow>
            (\<exists>u. store' = store @ [u] \<and> username u = str (b_username b)
                 \<and> (role u = ''user'' \<or> role u = ''admin'')
                 \<and> (b_role b = None \<longrightarrow> role u = ''user'')))
       \<and> (status r \<noteq> 201 \<longrightarrow> store' = store)
       \<and> (truthy (b_username b) \<and> truthy (b_password b) \<and> b_role b = None
            \<and> findOne_user store (str (b_username b)) = None \<longrightarrow> status r = 201)"
proof (cases "truthy (b_username b) \<and> truthy (b_password b)")
  case False
  with assms show ?thesis by (auto simp: register_def reply_def)
next
  case valid: True
  show ?thesis
  proof (cases "findOne_user store (str (b_username b))")
    case (Some existing)
    with valid assms show ?thesis by (auto simp: register_def reply_def)
  next
    case None
    with valid assms show ?thesis
      by (auto simp: register_fresh Let_def reply_def user_schema_ok_def or_default_absent
          split: if_splits)
  qed
qed

theorem register_role_witness:
  "register demo_hash ''u2'' [alice] (creds ''bob'' ''pw'') =
     (reply 201 (Registered ''User registered successfully'' ''u2'' ''bob''),
      [alice] @ [\<lparr>u_id = ''u2'', username = ''bob'', password = ''#pw'', role = ''user''\<rparr>])
   \<and> (\<exists>u. [alice] @ [\<lparr>u_id = ''u2'', username = ''bob'', password = ''#pw'', role = ''user''\<rparr>]
            = [alice] @ [u] \<and> role u = ''user'')"
proof -
  have h: "register demo_hash ''u2'' [alice] (creds ''bob'' ''pw'') =
     (reply 201 (Registered ''User registered successfully'' ''u2'' ''bob''),
      [alice] @ [\<lparr>u_id = ''u2'', username = ''bob'', password = ''#pw'', role = ''user''\<rparr>])"
    by code_simp
  have s: "status (reply 201 (Registered ''User registered successfully'' ''u2'' ''bob'')) = 201"
    "b_role (creds ''bob'' ''pw'') = None"
    by (simp_all add: reply_def creds_def)
  from register_role [OF h] h s show ?thesis by auto
qed

section \<open>Properties of the product write routes\<close>

text \<open>
  C10. A create request that carries an image file, whose upload the media host accepts,
  and that lacks one of the required fields (name, description, price, quantity,
  category, subCategory: absent or empty) is answered 400 with the message naming the
  required fields, and the media host holds the image afterwards: the upload has been
  made before the fields were checked. The catalog is as it was.
\<close>

theorem create_uploads_before_check:
  assumes "req_file req = Some f" and "secure_url E = Some url"
    and "\<not> required_fields (req_body req)"
  shows "create_product E w req =
           (reply 400 (Message
              ''Missing required product fields: name, description, price, quantity, category, subCategory''),
            w\<lparr>media := media w @ [f]\<rparr>)"
  using assms by (simp add: create_product_def Let_def)

theorem create_uploads_before_check_witness:
  "req_file nameless_req = Some photo \<and> secure_url (demo_env no_nan) = Some ''http://img/2''
   \<and> \<not> required_fields (req_body nameless_req)
   \<and> create_product (demo_env no_nan) empty_world nameless_req =
       (reply 400 (Message
          ''Missing required product fields: name, description, price, quantity, category, subCategory''),
        empty_world\<lparr>media := media empty_world @ [photo]\<rparr>)"
proof -
  have h: "req_file nameless_req = Some photo"
    "secure_url (demo_env no_nan) = Some ''http://img/2''"
    "\<not> required_fields (req_body nameless_req)"
    by code_simp+
  from create_uploads_before_check [OF h] h show ?thesis by blast
qed




text \<open>
  C6, as the claim states it, fails for an update: the handler reads the specs field
  before it looks the identifier up, so an update with the identifier "not-an-id" and a
  specs field that is not JSON is answered 500, not 400.
\<close>

theorem malformed_id_counterexample:
  "\<not> well_formed_id ''not-an-id''
   \<and> update_product (demo_env no_nan) glove_world ''not-an-id'' bad_specs_req =
       (reply 500 (ServerError ''Server error'' SyntaxError), glove_world)"
  by code_simp

text \<open>
  C6, amended. A delete request is answered 400 when its identifier is not well formed
  and 404 when it is well formed and matches no record. An update request whose upload,
  if any, was accepted and whose specs field, if any, is JSON is answered 400 when its
  identifier is not well formed, and 404 when it is well formed, the store raises nothing
  on the update document and no record matches. An update whose upload fails or whose
  specs field is not JSON is answered 500 whatever its identifier. In each of these cases
  the catalog is as it was.
\<close>

theorem id_format_statuses:
  "(\<not> well_formed_id pid \<longrightarrow>
      delete_product w pid = (reply 400 (Message ''Invalid product ID format''), w))
   \<and> (well_formed_id pid
       \<and> find (\<lambda>p. object_id (p_id p) = object_id pid) (catalog w) = None \<longrightarrow>
      delete_product w pid = (reply 404 (Message ''Product not found''), w))
   \<and> (upload_step E w req = Inr (img, w1)
       \<and> parse_specs E (b_specs (req_body req)) = Inr sp
       \<and> \<not> well_formed_id pid \<longrightarrow>
      update_product E w pid req = (reply 400 (Message ''Invalid product ID format''), w1))
   \<and> (upload_step E w req = Inr (img, w1)
       \<and> parse_specs E (b_specs (req_body req)) = Inr sp
       \<and> well_formed_id pid
       \<and> check_update E (update_doc (req_body req) sp img) = None
       \<and> find (\<lambda>p. object_id (p_id p) = object_id pid) (catalog w1) = None \<longrightarrow>
      update_product E w pid req = (reply 404 (Message ''Product not found''), w1))
   \<and> (upload_step E w req = Inl e \<longrightarrow>
      update_product E w pid req = (reply 500 (ServerError ''Server error'' UploadFailed), w))
   \<and> (upload_step E w req = Inr (img, w1)
       \<and> parse_specs E (b_specs (req_body req)) = Inl e \<longrightarrow>
      update_product E w pid req = (reply 500 (ServerError ''Server error'' SyntaxError), w1))"
proof (intro conjI impI)
  assume "\<not> well_formed_id pid"
  then show "delete_product w pid = (reply 400 (Message ''Invalid product ID format''), w)"
    by (simp add: delete_product_def findByIdAndDelete_def catch_by_id_def)
next
  assume "well_formed_id pid
    \<and> find (\<lambda>p. object_id (p_id p) = object_id pid) (catalog w) = None"
  then show "delete_product w pid = (reply 404 (Message ''Product not found''), w)"
    by (simp add: delete_product_def findByIdAndDelete_def)
next
  assume "upload_step E w req = Inr (img, w1)
    \<and> parse_specs E (b_specs (req_body req)) = Inr sp \<and> \<not> well_formed_id pid"
  then show "update_product E w pid req =
      (reply 400 (Message ''Invalid product ID format''), w1)"
    by (simp add: update_product_def findByIdAndUpdate_def catch_by_id_def Let_def)
next
  assume "upload_step E w req = Inr (img, w1)
    \<and> parse_specs E (b_specs (req_body req)) = Inr sp
    \<and> well_formed_id pid
    \<and> check_update E (update_doc (req_body req) sp img) = None
    \<and> find (\<lambda>p. object_id (p_id p) = object_id pid) (catalog w1) = None"
  then show "update_product E w pid req = (reply 404 (Message ''Product not found''), w1)"
    by (simp add: update_product_def findByIdAndUpdate_def Let_def)
next
  assume a: "upload_step E w req = Inl e"
  then have "e = UploadFailed" by (rule upload_step_error)
  with a show "update_product E w pid req =
      (reply 500 (ServerError ''Server error'' UploadFailed), w)"
    by (simp add: update_product_def catch_by_id_def Let_def)
next
  assume a: "upload_step E w req = Inr (img, w1)
    \<and> parse_specs E (b_specs (req_body req)) = Inl e"
  then have "e = SyntaxError" by (auto dest: parse_specs_error)
  with a show "update_product E w pid req =
      (reply 500 (ServerError ''Server error'' SyntaxError), w1)"
    by (simp add: update_product_def catch_by_id_def Let_def)
qed

text \<open>
  The identifier "not-an-id" and the well-formed identifier of no stored record, for a
  delete and for an update of the price; the last line spells the stored identifier in
  upper case, which names the same record.
\<close>

theorem id_format_statuses_witness:
  "\<not> well_formed_id ''not-an-id'' \<and> well_formed_id ''ffffffffffffffffffffffff''
   \<and> delete_product glove_world ''not-an-id''
       = (reply 400 (Message ''Invalid product ID format''), glove_world)
   \<and> delete_product glove_world ''ffffffffffffffffffffffff''
       = (reply 404 (Message ''Product not found''), glove_world)
   \<and> update_product (demo_env no_nan) glove_world ''not-an-id'' plain_req
       = (reply 400 (Message ''Invalid product ID format''), glove_world)
   \<and> update_product (demo_env no_nan) glove_world ''ffffffffffffffffffffffff'' plain_req
       = (reply 404 (Message ''Product not found''), glove_world)
   \<and> update_product (demo_env no_nan) glove_world ''not-an-id'' bad_specs_req
       = (reply 500 (ServerError ''Server error'' SyntaxError), glove_world)
   \<and> delete_product glove_world ''0123456789ABCDEF01234567''
       = (reply 200 (Message ''Product deleted successfully''), glove_world\<lparr>catalog := []\<rparr>)"
proof -
  have h: "\<not> well_formed_id ''not-an-id''" "well_formed_id ''ffffffffffffffffffffffff''"
    "find (\<lambda>p. object_id (p_id p) = object_id ''ffffffffffffffffffffffff'')
       (catalog glove_world) = None"
    "upload_step (demo_env no_nan) glove_world plain_req = Inr (None, glove_world)"
    "parse_specs (demo_env no_nan) (b_specs (req_body plain_req)) = Inr []"
    "check_update (demo_env no_nan) (update_doc (req_body plain_req) [] None) = None"
    "upload_step (demo_env no_nan) glove_world bad_specs_req = Inr (None, glove_world)"
    "parse_specs (demo_env no_nan) (b_specs (req_body bad_specs_req)) = Inl SyntaxError"
    by code_simp+
  have v: "delete_product glove_world ''0123456789ABCDEF01234567''
       = (reply 200 (Message ''Product deleted successfully''), glove_world\<lparr>catalog := []\<rparr>)"
    by code_simp
  from id_format_statuses [where pid = "''not-an-id''" and w = glove_world
      and E = "demo_env no_nan" and req = plain_req and img = None and ?w1.0 = glove_world
      and sp = "[]"] h
  have a: "delete_product glove_world ''not-an-id''
       = (reply 400 (Message ''Invalid product ID format''), glove_world)
     \<and> update_product (demo_env no_nan) glove_world ''not-an-id'' plain_req
       = (reply 400 (Message ''Invalid product ID format''), glove_world)"
    by simp
  from id_format_statuses [where pid = "''ffffffffffffffffffffffff''" and w = glove_world
      and E = "demo_env no_nan" and req = plain_req and img = None and ?w1.0 = glove_world
      and sp = "[]"] h
  have b: "delete_product glove_world ''ffffffffffffffffffffffff''
       = (reply 404 (Message ''Product not found''), glove_world)
     \<and> update_product (demo_env no_nan) glove_world ''ffffffffffffffffffffffff'' plain_req
       = (reply 404 (Message ''Product not found''), glove_world)"
    by simp
  from id_format_statuses [where pid = "''not-an-id''" and w = glove_world
      and E = "demo_env no_nan" and req = bad_specs_req and img = None
      and ?w1.0 = glove_world and e = SyntaxError] h
  have c: "update_product (demo_env no_nan) glove_world ''not-an-id'' bad_specs_req
       = (reply 500 (ServerError ''Server error'' SyntaxError), glove_world)"
    by simp
  from a b c v h show ?thesis by simp
qed

section \<open>Properties of the listing routes\<close>

text \<open>
  C8, as the claim states it, fails for a limit that is a number but not a whole one. With
  the limit "2.5", the number 5/2, and five products the handler answers three pages, the
  pages of the limit 2 that \<^verbatim>\<open>parseInt\<close> reads, while the five products divided by 5/2
  give two.
\<close>

theorem fractional_limit_counterexample:
  "ToNumber_str ''2.5'' = Fin (5 / 2)
   \<and> app_limit fractional_query = Fin 2
   \<and> list_products strict_cursor seeded fractional_query =
       Some (reply 200 (Listing \<lparr>products = [glove_at 5, glove_at 4], currentPage = Fin 1,
                                 totalPages = Fin 3, totalProducts = 5\<rparr>))
   \<and> Math_ceil (js_div (Fin 5) (ToNumber_str ''2.5'')) = Fin 2"
  by code_simp

text \<open>
  C8, amended. When the listing handler of \<^verbatim>\<open>server.js\<close> has built its query, the limit
  that \<^verbatim>\<open>parseInt\<close> reads from the parameter (its leading whole number; 9999 when the
  parameter is absent) is a number \<open>l\<close> other than 0, and the store answers the page
  request, the response is 200 with \<open>totalPages = \<lceil>totalProducts / l\<rceil>\<close>, where
  \<open>totalProducts\<close> is the number of stored products that match the query, the same query
  whose matches the page was cut from. \<open>l\<close> is also the limit handed to the store.
\<close>

theorem total_pages_ceiling:
  assumes "build_query q = Some (Inr query)"
    and "cur (app_skip q) (app_limit q) (newest_first (filter (matches query) store)) = Inr ps"
    and "app_limit q = Fin l" and "l \<noteq> 0"
  shows "list_products cur store q =
     Some (reply 200 (Listing
       \<lparr>products = ps,
        currentPage = parseInt (js_of (q_page q)),
        totalPages = Fin (of_int \<lceil>of_nat (length (filter (matches query) store)) / l\<rceil>),
        totalProducts = length (filter (matches query) store)\<rparr>))"
  using assms by (simp add: list_products_def countDocuments_def Math_ceil_def Let_def)

text \<open>
  The example of the specification: five products of category Gloves, page 2 with limit
  2 gives the third and fourth newest, three pages, five products.
\<close>

theorem total_pages_ceiling_witness:
  "build_query page2_query = Some (Inr \<lparr>f_or = None, f_category = Some ''Gloves''\<rparr>)
   \<and> app_limit page2_query = Fin 2
   \<and> list_products strict_cursor seeded page2_query =
       Some (reply 200 (Listing \<lparr>products = [glove_at 3, glove_at 2], currentPage = Fin 2,
                                 totalPages = Fin 3, totalProducts = 5\<rparr>))"
proof -
  let ?f = "\<lparr>f_or = None, f_category = Some ''Gloves''\<rparr>"
  have h: "build_query page2_query = Some (Inr ?f)"
    "strict_cursor (app_skip page2_query) (app_limit page2_query)
        (newest_first (filter (matches ?f) seeded)) = Inr [glove_at 3, glove_at 2]"
    "app_limit page2_query = Fin 2" "(2::rat) \<noteq> 0"
    by code_simp+
  have v: "parseInt (js_of (q_page page2_query)) = Fin 2"
    "length (filter (matches ?f) seeded) = 5" "\<lceil>rat_of_nat 5 / 2\<rceil> = 3"
    by code_simp+
  from total_pages_ceiling [where cur = strict_cursor and q = page2_query and store = seeded
      and query = ?f, OF h] h v
  show ?thesis by simp
qed

text \<open>
  C2, as the claim states it, fails. With no page parameter the handler of
  \<^verbatim>\<open>server.js\<close> hands \<^verbatim>\<open>NaN\<close> to the store as skip; a store that reads it as absent gets
  the answer 200 with \<open>currentPage = NaN\<close>, a store that refuses it the answer 500. With
  the page "abc" the handler of \<^verbatim>\<open>routes/products.js\<close> does the same. No answer is 400
  and none names page 1.
\<close>

theorem listing_nan_counterexample:
  "app_skip list_all_query = NaN
   \<and> list_products lenient_cursor [glove] list_all_query =
       Some (reply 200 (Listing \<lparr>products = [glove], currentPage = NaN, totalPages = Fin 1,
                                 totalProducts = 1\<rparr>))
   \<and> list_products strict_cursor [glove] list_all_query = Some (server_error BadValue)
   \<and> router_skip (list_all_query\<lparr>q_page := Some ''abc''\<rparr>) = NaN
   \<and> router_list lenient_cursor [glove] (list_all_query\<lparr>q_page := Some ''abc''\<rparr>) =
       Some (reply 200 (Listing \<lparr>products = [glove], currentPage = NaN, totalPages = Fin 1,
                                 totalProducts = 1\<rparr>))
   \<and> router_list strict_cursor [glove] (list_all_query\<lparr>q_page := Some ''abc''\<rparr>) =
       Some (router_catch BadValue)"
  by code_simp

text \<open>
  C2, amended. Neither listing handler has an answer 400: every response is 200 or 500.
  In the handler of \<^verbatim>\<open>server.js\<close>, a page text that \<^verbatim>\<open>parseInt\<close> cannot read makes the
  skip handed to the store \<^verbatim>\<open>NaN\<close>, and a 200 answer then carries \<open>currentPage = NaN\<close>;
  a limit text that \<^verbatim>\<open>parseInt\<close> cannot read makes the skip and the limit handed to the
  store \<^verbatim>\<open>NaN\<close>, and a 200 answer then carries \<open>totalPages = NaN\<close>, its \<open>currentPage\<close>
  being what \<^verbatim>\<open>parseInt\<close> reads from the page. In the handler of \<^verbatim>\<open>routes/products.js\<close>
  a page text that is no numeric literal makes the skip \<^verbatim>\<open>NaN\<close>, and an absent page is
  treated as page 1.
\<close>

theorem listing_no_bad_request:
  "(list_products cur store q = Some r \<longrightarrow> status r = 200 \<or> status r = 500)
   \<and> (router_list cur store q = Some r \<longrightarrow> status r = 200 \<or> status r = 500)
   \<and> (q_page q = Some s \<and> parseInt_str s = NaN \<longrightarrow>
        app_skip q = NaN
        \<and> (\<forall>L. list_products cur store q = Some (reply 200 (Listing L)) \<longrightarrow> currentPage L = NaN))
   \<and> (q_limit q = Some s \<and> parseInt_str s = NaN \<longrightarrow>
        app_skip q = NaN \<and> app_limit q = NaN
        \<and> (\<forall>L. list_products cur store q = Some (reply 200 (Listing L)) \<longrightarrow>
              totalPages L = NaN \<and> currentPage L = parseInt (js_of (q_page q))))
   \<and> (q_page q = Some s \<and> ToNumber_str s = NaN \<longrightarrow> router_skip q = NaN)
   \<and> (q_page q = None \<longrightarrow>
        router_list cur store q = router_list cur store (q\<lparr>q_page := Some ''1''\<rparr>))"
proof (intro conjI impI)
  assume "list_products cur store q = Some r"
  then show "status r = 200 \<or> status r = 500"
    by (auto simp: list_products_def reply_def server_error_def Let_def
        split: option.splits sum.splits)
next
  assume "router_list cur store q = Some r"
  then show "status r = 200 \<or> status r = 500"
    by (auto simp: router_list_def reply_def router_catch_def Let_def
        split: option.splits sum.splits)
next
  assume a: "q_page q = Some s \<and> parseInt_str s = NaN"
  then show "app_skip q = NaN"
    by (simp add: app_skip_def js_of_def parseInt_def js_sub_def)
  from a show "\<forall>L. list_products cur store q = Some (reply 200 (Listing L)) \<longrightarrow> currentPage L = NaN"
    by (auto simp: list_products_def reply_def server_error_def Let_def js_of_def parseInt_def
        split: option.splits sum.splits)
next
  assume a: "q_limit q = Some s \<and> parseInt_str s = NaN"
  then show "app_skip q = NaN"
    by (simp add: app_skip_def or_number_def parseInt_def js_mul_NaN_right)
  from a show l: "app_limit q = NaN"
    by (simp add: app_limit_def or_number_def parseInt_def)
  show "\<forall>L. list_products cur store q = Some (reply 200 (Listing L)) \<longrightarrow>
      totalPages L = NaN \<and> currentPage L = parseInt (js_of (q_page q))"
    by (auto simp: list_products_def reply_def server_error_def Let_def l Math_ceil_def
        split: option.splits sum.splits)
next
  assume "q_page q = Some s \<and> ToNumber_str s = NaN"
  then show "router_skip q = NaN"
    by (simp add: router_skip_def or_number_def ToNumber_def js_sub_def)
next
  assume a: "q_page q = None"
  have h1: "router_skip (q\<lparr>q_page := Some ''1''\<rparr>) = router_skip q"
    using a by (simp add: router_skip_def or_number_def ToNumber_def one_as_text)
  have h2: "router_limit (q\<lparr>q_page := Some ''1''\<rparr>) = router_limit q"
    by (simp add: router_limit_def)
  have h3: "build_query (q\<lparr>q_page := Some ''1''\<rparr>) = build_query q"
    by (simp add: build_query_def split: option.splits sum.splits)
  have h4: "parseInt (or_number (q_page (q\<lparr>q_page := Some ''1''\<rparr>)) (Fin 1))
      = parseInt (or_number (q_page q) (Fin 1))"
    using a by (simp add: or_number_def parseInt_def one_as_text)
  have h5: "q_limit (q\<lparr>q_page := Some ''1''\<rparr>) = q_limit q"
    by simp
  show "router_list cur store q = router_list cur store (q\<lparr>q_page := Some ''1''\<rparr>)"
    unfolding router_list_def h1 h2 h3 h4 h5 ..
qed

theorem listing_no_bad_request_witness:
  "q_page (list_all_query\<lparr>q_page := Some ''abc''\<rparr>) = Some ''abc''
   \<and> parseInt_str ''abc'' = NaN
   \<and> app_skip (list_all_query\<lparr>q_page := Some ''abc''\<rparr>) = NaN
   \<and> q_limit (list_all_query\<lparr>q_page := Some ''1'', q_limit := Some ''abc''\<rparr>) = Some ''abc''
   \<and> app_limit (list_all_query\<lparr>q_page := Some ''1'', q_limit := Some ''abc''\<rparr>) = NaN
   \<and> list_products lenient_cursor [glove]
        (list_all_query\<lparr>q_page := Some ''1'', q_limit := Some ''abc''\<rparr>) =
       Some (reply 200 (Listing \<lparr>products = [glove], currentPage = Fin 1, totalPages = NaN,
                                 totalProducts = 1\<rparr>))
   \<and> q_page list_all_query = None
   \<and> router_list strict_cursor [glove] list_all_query =
       router_list strict_cursor [glove] (list_all_query\<lparr>q_page := Some ''1''\<rparr>)"
proof -
  have h: "q_page (list_all_query\<lparr>q_page := Some ''abc''\<rparr>) = Some ''abc''"
    "parseInt_str ''abc'' = NaN" "q_page list_all_query = None"
    "q_limit (list_all_query\<lparr>q_page := Some ''1'', q_limit := Some ''abc''\<rparr>) = Some ''abc''"
    "list_products lenient_cursor [glove]
        (list_all_query\<lparr>q_page := Some ''1'', q_limit := Some ''abc''\<rparr>) =
       Some (reply 200 (Listing \<lparr>products = [glove], currentPage = Fin 1, totalPages = NaN,
                                 totalProducts = 1\<rparr>))"
    by code_simp+
  from listing_no_bad_request [where q = "list_all_query\<lparr>q_page := Some ''abc''\<rparr>"
      and s = "''abc''"] h
  have a: "app_skip (list_all_query\<lparr>q_page := Some ''abc''\<rparr>) = NaN"
    by blast
  from listing_no_bad_request
      [where q = "list_all_query\<lparr>q_page := Some ''1'', q_limit := Some ''abc''\<rparr>"
      and s = "''abc''"] h
  have l: "app_limit (list_all_query\<lparr>q_page := Some ''1'', q_limit := Some ''abc''\<rparr>) = NaN"
    by blast
  from listing_no_bad_request [where q = list_all_query and cur = strict_cursor
      and store = "[glove]"] h
  have b: "router_list strict_cursor [glove] list_all_query =
       router_list strict_cursor [glove] (list_all_query\<lparr>q_page := Some ''1''\<rparr>)"
    by blast
  from a l b h show ?thesis by blast
qed

text \<open>
  C9, as the claim states it, fails at the empty category: the parameter is present and is
  not "All", the handler applies no category filter, and the page holds a product whose
  category is "Gloves".
\<close>

theorem empty_category_counterexample:
  "list_products strict_cursor [glove]
      (list_all_query\<lparr>q_page := Some ''1'', q_category := Some []\<rparr>) =
     Some (reply 200 (Listing \<lparr>products = [glove], currentPage = Fin 1, totalPages = Fin 1,
                               totalProducts = 1\<rparr>))
   \<and> category glove \<noteq> []"
  by code_simp

text \<open>
  C9, amended. With a store whose page is cut from the products that match the query:
  when the category parameter is present, not empty and not "All", every product of a
  200 answer has exactly that category; when the parameter is absent, empty or "All", the
  query has no category filter.
\<close>

theorem category_filter_exact:
  assumes "\<And>s l xs ys. cur s l xs = Inr ys \<Longrightarrow> set ys \<subseteq> set xs"
  shows "(q_category q = Some c \<and> c \<noteq> [] \<and> c \<noteq> ''All''
            \<and> list_products cur store q = Some (reply 200 (Listing L))
          \<longrightarrow> list_all (\<lambda>p. category p = c) (products L))
       \<and> ((q_category q = None \<or> q_category q = Some [] \<or> q_category q = Some ''All'')
            \<and> build_query q = Some (Inr f)
          \<longrightarrow> f_category f = None)"
proof (intro conjI impI)
  assume a: "q_category q = Some c \<and> c \<noteq> [] \<and> c \<noteq> ''All''
     \<and> list_products cur store q = Some (reply 200 (Listing L))"
  then have cf: "category_filter (q_category q) = Some c"
    by (simp add: category_filter_def truthy_def str_def)
  from a obtain query where bq: "build_query q = Some (Inr query)"
    and page: "cur (app_skip q) (app_limit q) (newest_first (filter (matches query) store))
                 = Inr (products L)"
    by (auto simp: list_products_def reply_def server_error_def Let_def
        split: option.splits sum.splits)
  from bq cf have "f_category query = Some c"
    by (auto simp: build_query_def split: option.splits sum.splits)
  moreover from assms [OF page] have "set (products L) \<subseteq> set (filter (matches query) store)"
    by (simp add: set_newest_first)
  ultimately show "list_all (\<lambda>p. category p = c) (products L)"
    by (auto simp: list_all_iff matches_def)
next
  assume "(q_category q = None \<or> q_category q = Some [] \<or> q_category q = Some ''All'')
     \<and> build_query q = Some (Inr f)"
  then show "f_category f = None"
    by (auto simp: build_query_def category_filter_def truthy_def str_def
        split: option.splits sum.splits)
qed

theorem category_filter_exact_witness:
  "q_category page2_query = Some ''Gloves''
   \<and> list_products strict_cursor seeded page2_query =
       Some (reply 200 (Listing \<lparr>products = [glove_at 3, glove_at 2], currentPage = Fin 2,
                                 totalPages = Fin 3, totalProducts = 5\<rparr>))
   \<and> list_all (\<lambda>p. category p = ''Gloves'') [glove_at 3, glove_at 2]
   \<and> q_category list_all_query = None
   \<and> build_query list_all_query = Some (Inr \<lparr>f_or = None, f_category = None\<rparr>)"
proof -
  have h: "q_category page2_query = Some ''Gloves''"
    "list_products strict_cursor seeded page2_query =
       Some (reply 200 (Listing \<lparr>products = [glove_at 3, glove_at 2], currentPage = Fin 2,
                                 totalPages = Fin 3, totalProducts = 5\<rparr>))"
    "q_category list_all_query = None"
    "build_query list_all_query = Some (Inr \<lparr>f_or = None, f_category = None\<rparr>)"
    by code_simp+
  from category_filter_exact [where cur = strict_cursor and q = page2_query
      and c = "''Gloves''" and store = seeded
      and L = "\<lparr>products = [glove_at 3, glove_at 2], currentPage = Fin 2,
                 totalPages = Fin 3, totalProducts = 5\<rparr>", OF strict_cursor_subset] h
  have "list_all (\<lambda>p. category p = ''Gloves'') [glove_at 3, glove_at 2]"
    by simp
  with h show ?thesis by blast
qed

text \<open>
  C7, as the claim states it, fails for a search string with a syntax character. The
  search "G.o" is compiled with the dot as a wildcard and matches the product named
  "Glove", which the listing returns, while "G.o" occurs in none of its fields; the search
  "*" does not compile, and the answer is 500.
\<close>

theorem search_regex_counterexample:
  "build_query (list_all_query\<lparr>q_search := Some ''G.o''\<rparr>) =
     Some (Inr \<lparr>f_or = Some [Lit CHR ''G'', AnyChar, Lit CHR ''o''], f_category = None\<rparr>)
   \<and> matches \<lparr>f_or = Some [Lit CHR ''G'', AnyChar, Lit CHR ''o''], f_category = None\<rparr> glove
   \<and> \<not> ci_substring ''G.o'' (name glove) \<and> \<not> ci_substring ''G.o'' (description glove)
   \<and> \<not> ci_substring ''G.o'' (category glove) \<and> \<not> ci_substring ''G.o'' (subcategory glove)
   \<and> \<not> list_ex (ci_substring ''G.o'') (specs glove)
   \<and> list_products strict_cursor [glove]
        (list_all_query\<lparr>q_page := Some ''1'', q_search := Some ''G.o''\<rparr>) =
       Some (reply 200 (Listing \<lparr>products = [glove], currentPage = Fin 1, totalPages = Fin 1,
                                 totalProducts = 1\<rparr>))
   \<and> list_products strict_cursor [glove]
        (list_all_query\<lparr>q_page := Some ''1'', q_search := Some ''*''\<rparr>) =
       Some (server_error SyntaxError)"
  by code_simp

text \<open>
  C7, amended. For a search string that is not empty and holds no syntax character of
  regular expressions, the query is built, and a product matches it if and only if the
  string occurs, letter case ignored, as a substring of its name, description, category,
  subcategory or one of its specs entries, and the product passes the category filter
  when there is one.
\<close>

theorem search_literal_substring:
  assumes "q_search q = Some s" and "s \<noteq> []" and "list_all (\<lambda>c. \<not> syntax_char c) s"
  shows "\<exists>f. build_query q = Some (Inr f)
       \<and> (\<forall>p. matches f p =
            ((ci_substring s (name p) \<or> ci_substring s (description p)
               \<or> ci_substring s (category p) \<or> ci_substring s (subcategory p)
               \<or> list_ex (ci_substring s) (specs p))
             \<and> (case category_filter (q_category q) of
                   None \<Rightarrow> True | Some c \<Rightarrow> category p = c)))"
proof -
  have "build_query q =
      Some (Inr \<lparr>f_or = Some (map Lit s), f_category = category_filter (q_category q)\<rparr>)"
    using assms RegExp_i_literal [OF assms(3)]
    by (simp add: build_query_def search_regex_def truthy_def str_def)
  moreover have "regex_test (map Lit s) = ci_substring s"
    by (rule ext) (simp add: regex_test_literal ci_substring_def)
  ultimately show ?thesis by (simp add: matches_def)
qed

theorem search_literal_substring_witness:
  "q_search (list_all_query\<lparr>q_search := Some ''LOV''\<rparr>) = Some ''LOV''
   \<and> ''LOV'' \<noteq> [] \<and> list_all (\<lambda>c. \<not> syntax_char c) ''LOV''
   \<and> ci_substring ''LOV'' (name glove)
   \<and> (\<exists>f. build_query (list_all_query\<lparr>q_search := Some ''LOV''\<rparr>) = Some (Inr f)
          \<and> matches f glove)"
proof -
  have h: "q_search (list_all_query\<lparr>q_search := Some ''LOV''\<rparr>) = Some ''LOV''"
    "''LOV'' \<noteq> []" "list_all (\<lambda>c. \<not> syntax_char c) ''LOV''"
    by code_simp+
  have v: "ci_substring ''LOV'' (name glove)"
    "category_filter (q_category (list_all_query\<lparr>q_search := Some ''LOV''\<rparr>)) = None"
    by code_simp+
  from search_literal_substring [OF h] v
  have "\<exists>f. build_query (list_all_query\<lparr>q_search := Some ''LOV''\<rparr>) = Some (Inr f)
          \<and> matches f glove"
    by auto
  with h v show ?thesis by blast
qed

end
